theory Spec2Isabelle
  imports Main "HOL-Library.Word" "HOL-Library.Stream"
begin

unbundle bit_operations_syntax

section \<open>Python values\<close>

text \<open>
  The attributes of an \<open>SSHTunnel\<close> object are ordinary Python values: the type hints
  of \<open>__init__\<close> are not enforced, and \<open>load_tunnels\<close> stores whatever
  \<open>json.loads\<close> returns. A Python \<open>str\<close> is represented by the sequence of its
  UTF-8 code units (an Isabelle \<open>string\<close>); the program never indexes or measures a
  string, it only tests it for emptiness, passes it on, and encodes it.
\<close>

datatype pyfloat = FFinite int int | FInfinite bool | FNaN

datatype pyval =
    PNone
  | PBool bool
  | PInt int
  | PFloat pyfloat
  | PStr string
  | PList "pyval list"
  | PDict "(string \<times> pyval) list"

text \<open>Python's truth value testing, as used by \<open>not server_ip\<close>.\<close>

fun py_falsy :: "pyval \<Rightarrow> bool" where
  "py_falsy PNone = True"
| "py_falsy (PBool b) = (\<not> b)"
| "py_falsy (PInt i) = (i = 0)"
| "py_falsy (PFloat (FFinite m e)) = (m = 0)"
| "py_falsy (PFloat (FInfinite s)) = False"
| "py_falsy (PFloat FNaN) = False"
| "py_falsy (PStr s) = (s = [])"
| "py_falsy (PList xs) = (xs = [])"
| "py_falsy (PDict kvs) = (kvs = [])"

section \<open>Exceptions\<close>

text \<open>
  The program defines no exception class of its own; every failure is an exception of a
  library, propagated unchanged. Each constructor is one exception as the library raises it.
\<close>

datatype error =
    UnicodeDecodeError
  | Base64Error
  | InvalidKeySize nat
  | InvalidIVSize nat
  | BlockLengthError
  | InvalidPadding
  | KeyTooLong
  | JSONDecodeError
  | TypeError
  | FileNotFoundError
  | ForwarderError string

section \<open>The tunnel entity (SSHTunnel.py)\<close>

text \<open>
  \<open>tunnel_fwd\<close> is the attribute \<open>_tunnel\<close>: \<open>None\<close>, or the state of the
  \<open>SSHTunnelForwarder\<close> object that this tunnel alone refers to.
\<close>

record 'h SSHTunnel =
  name :: pyval
  local_ip :: pyval
  local_port :: pyval
  host_ip :: pyval
  host_port :: pyval
  server_port :: pyval
  user :: pyval
  password :: pyval
  server_ip :: pyval
  tunnel_fwd :: "'h option"

text \<open>The defaults of the optional parameters of \<open>__init__\<close>.\<close>

definition default_name :: pyval where
  "default_name = PStr []"

definition default_local_ip :: pyval where
  "default_local_ip = PStr ''127.0.0.1''"

definition default_server_ip :: pyval where
  "default_server_ip = PNone"

definition default_server_port :: pyval where
  "default_server_port = PInt 22"

text \<open>
  \<open>SSHTunnel.__init__\<close>, with the parameters in the order of the signature. It raises
  nothing and checks nothing.
\<close>

definition SSHTunnel_init ::
  "pyval \<Rightarrow> pyval \<Rightarrow> pyval \<Rightarrow> pyval \<Rightarrow> pyval \<Rightarrow> pyval \<Rightarrow> pyval \<Rightarrow> pyval \<Rightarrow> pyval \<Rightarrow> 'h SSHTunnel"
where
  "SSHTunnel_init local_port' host_ip' host_port' user' password' name' local_ip' server_ip' server_port' =
     \<lparr> name = name',
       local_ip = local_ip',
       local_port = local_port',
       host_ip = host_ip',
       host_port = host_port',
       server_port = server_port',
       user = user',
       password = password',
       server_ip = (if py_falsy server_ip' then host_ip' else server_ip'),
       tunnel_fwd = None \<rparr>"

text \<open>
  The \<open>sshtunnel\<close> library is an external collaborator. A forwarder object has a state of
  type \<open>'h\<close>; constructing one may raise, \<open>start\<close> and \<open>stop\<close> change the state and
  may raise, and the property \<open>is_active\<close> reads the state.
\<close>

record 'h forwarder =
  fwd_new :: "pyval \<times> pyval \<Rightarrow> pyval \<times> pyval \<Rightarrow> pyval \<times> pyval \<Rightarrow> pyval \<Rightarrow> pyval \<Rightarrow> error + 'h"
  fwd_start :: "'h \<Rightarrow> error option \<times> 'h"
  fwd_stop :: "bool \<Rightarrow> 'h \<Rightarrow> error option \<times> 'h"
  fwd_is_active :: "'h \<Rightarrow> bool"

definition is_active :: "'h forwarder \<Rightarrow> 'h SSHTunnel \<Rightarrow> bool" where
  "is_active F t = (case tunnel_fwd t of None \<Rightarrow> False | Some h \<Rightarrow> fwd_is_active F h)"

text \<open>
  \<open>start\<close> and \<open>stop\<close> return the exception raised, if any, and the tunnel as the call
  leaves it: an assignment made before the exception stays.
\<close>

definition start :: "'h forwarder \<Rightarrow> 'h SSHTunnel \<Rightarrow> error option \<times> 'h SSHTunnel" where
  "start F t =
     (case (case tunnel_fwd t of
              None \<Rightarrow>
                (case fwd_new F (server_ip t, server_port t) (host_ip t, host_port t)
                        (local_ip t, local_port t) (user t) (password t) of
                   Inl e \<Rightarrow> Inl e
                 | Inr h \<Rightarrow> Inr (t\<lparr>tunnel_fwd := Some h\<rparr>))
            | Some h \<Rightarrow> Inr t) of
        Inl e \<Rightarrow> (Some e, t)
      | Inr t1 \<Rightarrow>
          if \<not> is_active F t1 then
            (case tunnel_fwd t1 of
               None \<Rightarrow> (None, t1)
             | Some h \<Rightarrow> (case fwd_start F h of (r, h') \<Rightarrow> (r, t1\<lparr>tunnel_fwd := Some h'\<rparr>)))
          else (None, t1))"

definition stop :: "'h forwarder \<Rightarrow> 'h SSHTunnel \<Rightarrow> error option \<times> 'h SSHTunnel" where
  "stop F t =
     (if is_active F t then
        (case tunnel_fwd t of
           None \<Rightarrow> (None, t\<lparr>tunnel_fwd := None\<rparr>)
         | Some h \<Rightarrow>
             (case fwd_stop F True h of
                (Some e, h') \<Rightarrow> (Some e, t\<lparr>tunnel_fwd := Some h'\<rparr>)
              | (None, h') \<Rightarrow> (None, t\<lparr>tunnel_fwd := None\<rparr>)))
      else (None, t\<lparr>tunnel_fwd := None\<rparr>))"

definition to_dict :: "'h SSHTunnel \<Rightarrow> (string \<times> pyval) list" where
  "to_dict t =
     [ (''name'', name t),
       (''local_ip'', local_ip t),
       (''local_port'', local_port t),
       (''host_ip'', host_ip t),
       (''host_port'', host_port t),
       (''server_port'', server_port t),
       (''user'', user t),
       (''password'', password t),
       (''server_ip'', server_ip t) ]"

section \<open>Bytes and text\<close>

type_synonym byte = "8 word"
type_synonym bytes = "byte list"

text \<open>
  \<open>str.encode()\<close>: the UTF-8 code units of the string, as bytes. \<open>bytes.decode()\<close>
  accepts exactly the well-formed UTF-8 sequences (no overlong form, no surrogate, nothing
  above U+10FFFF) and raises \<open>UnicodeDecodeError\<close> on every other input.
\<close>

definition str_encode :: "string \<Rightarrow> bytes" where
  "str_encode s = map of_char s"

definition is_cont :: "byte \<Rightarrow> bool" where
  "is_cont b = (0x80 \<le> b \<and> b \<le> 0xBF)"

fun utf8_valid :: "bytes \<Rightarrow> bool" where
  "utf8_valid [] = True"
| "utf8_valid (b0 # bs) =
     (if b0 < 0x80 then utf8_valid bs
      else if 0xC2 \<le> b0 \<and> b0 \<le> 0xDF then
        (case bs of b1 # r \<Rightarrow> is_cont b1 \<and> utf8_valid r | _ \<Rightarrow> False)
      else if b0 = 0xE0 then
        (case bs of b1 # b2 # r \<Rightarrow> 0xA0 \<le> b1 \<and> b1 \<le> 0xBF \<and> is_cont b2 \<and> utf8_valid r
         | _ \<Rightarrow> False)
      else if (0xE1 \<le> b0 \<and> b0 \<le> 0xEC) \<or> b0 = 0xEE \<or> b0 = 0xEF then
        (case bs of b1 # b2 # r \<Rightarrow> is_cont b1 \<and> is_cont b2 \<and> utf8_valid r | _ \<Rightarrow> False)
      else if b0 = 0xED then
        (case bs of b1 # b2 # r \<Rightarrow> 0x80 \<le> b1 \<and> b1 \<le> 0x9F \<and> is_cont b2 \<and> utf8_valid r
         | _ \<Rightarrow> False)
      else if b0 = 0xF0 then
        (case bs of b1 # b2 # b3 # r \<Rightarrow>
           0x90 \<le> b1 \<and> b1 \<le> 0xBF \<and> is_cont b2 \<and> is_cont b3 \<and> utf8_valid r
         | _ \<Rightarrow> False)
      else if 0xF1 \<le> b0 \<and> b0 \<le> 0xF3 then
        (case bs of b1 # b2 # b3 # r \<Rightarrow> is_cont b1 \<and> is_cont b2 \<and> is_cont b3 \<and> utf8_valid r
         | _ \<Rightarrow> False)
      else if b0 = 0xF4 then
        (case bs of b1 # b2 # b3 # r \<Rightarrow>
           0x80 \<le> b1 \<and> b1 \<le> 0x8F \<and> is_cont b2 \<and> is_cont b3 \<and> utf8_valid r
         | _ \<Rightarrow> False)
      else False)"

definition bytes_decode :: "bytes \<Rightarrow> error + string" where
  "bytes_decode bs =
     (if utf8_valid bs then Inr (map (\<lambda>b. char_of (unat b)) bs) else Inl UnicodeDecodeError)"

text \<open>An exception ends the function; a value goes on to the next statement.\<close>

fun and_then :: "error + 'a \<Rightarrow> ('a \<Rightarrow> error + 'b) \<Rightarrow> error + 'b" where
  "and_then (Inl e) f = Inl e"
| "and_then (Inr x) f = f x"

section \<open>The libraries behind encryption.py\<close>

text \<open>
  The primitives of the \<open>cryptography\<close>, \<open>base64\<close> and \<open>json\<close> libraries are
  parameters: the AES block cipher (key, 16-byte block), the SHA-256 hash,
  \<open>base64.b64encode\<close> and \<open>base64.b64decode\<close> (\<open>None\<close> is \<open>binascii.Error\<close>),
  \<open>json.dumps\<close> and \<open>json.loads\<close> (\<open>None\<close> is \<open>json.JSONDecodeError\<close>).
  What the libraries build from them (HMAC, PBKDF2, CBC chaining, PKCS#7 padding, the
  checks of the \<open>Cipher\<close> constructor) is written out below.
\<close>

record backend =
  aes_encrypt_block :: "bytes \<Rightarrow> bytes \<Rightarrow> bytes"
  aes_decrypt_block :: "bytes \<Rightarrow> bytes \<Rightarrow> bytes"
  sha256 :: "bytes \<Rightarrow> bytes"
  b64encode :: "bytes \<Rightarrow> bytes"
  b64decode :: "string \<Rightarrow> bytes option"
  json_dumps :: "pyval \<Rightarrow> string"
  json_loads :: "string \<Rightarrow> pyval option"

definition xor_bytes :: "bytes \<Rightarrow> bytes \<Rightarrow> bytes" where
  "xor_bytes a b = map2 (XOR) a b"

text \<open>HMAC (RFC 2104) over SHA-256, whose block size is 64 bytes.\<close>

definition hmac_key :: "(bytes \<Rightarrow> bytes) \<Rightarrow> bytes \<Rightarrow> bytes" where
  "hmac_key H key =
     (let k = (if length key > 64 then H key else key) in k @ replicate (64 - length k) 0)"

definition hmac :: "(bytes \<Rightarrow> bytes) \<Rightarrow> bytes \<Rightarrow> bytes \<Rightarrow> bytes" where
  "hmac H key msg =
     H (map (\<lambda>b. b XOR 0x5C) (hmac_key H key) @ H (map (\<lambda>b. b XOR 0x36) (hmac_key H key) @ msg))"

text \<open>PBKDF2 (RFC 8018) with HMAC-SHA-256, whose output is 32 bytes.\<close>

definition int32_be :: "nat \<Rightarrow> bytes" where
  "int32_be i = [of_nat (i div 2 ^ 24), of_nat (i div 2 ^ 16), of_nat (i div 2 ^ 8), of_nat i]"

fun pbkdf2_rounds :: "(bytes \<Rightarrow> bytes) \<Rightarrow> nat \<Rightarrow> bytes \<Rightarrow> bytes \<Rightarrow> bytes" where
  "pbkdf2_rounds prf 0 u acc = acc"
| "pbkdf2_rounds prf (Suc n) u acc = pbkdf2_rounds prf n (prf u) (xor_bytes acc (prf u))"

definition pbkdf2_block :: "(bytes \<Rightarrow> bytes) \<Rightarrow> bytes \<Rightarrow> bytes \<Rightarrow> nat \<Rightarrow> nat \<Rightarrow> bytes" where
  "pbkdf2_block H pw salt iterations i =
     (let u1 = hmac H pw (salt @ int32_be i)
      in pbkdf2_rounds (hmac H pw) (iterations - 1) u1 u1)"

definition pbkdf2_hmac :: "(bytes \<Rightarrow> bytes) \<Rightarrow> nat \<Rightarrow> bytes \<Rightarrow> nat \<Rightarrow> bytes \<Rightarrow> error + bytes" where
  "pbkdf2_hmac H len salt iterations pw =
     (if len > (2 ^ 32 - 1) * 32 then Inl KeyTooLong
      else Inr (take len (concat (map (pbkdf2_block H pw salt iterations)
                                     [1 ..< Suc ((len + 31) div 32)]))))"

text \<open>PKCS#7 padding to the AES block size, and its removal.\<close>

definition pkcs7_pad :: "bytes \<Rightarrow> bytes" where
  "pkcs7_pad data = (let n = 16 - length data mod 16 in data @ replicate n (of_nat n))"

definition pkcs7_unpad :: "bytes \<Rightarrow> error + bytes" where
  "pkcs7_unpad data =
     (if data = [] \<or> length data mod 16 \<noteq> 0 then Inl InvalidPadding
      else let n = unat (last data) in
        if n = 0 \<or> 16 < n \<or> \<not> list_all (\<lambda>b. b = last data) (drop (length data - n) data)
        then Inl InvalidPadding
        else Inr (take (length data - n) data))"

text \<open>
  \<open>Cipher(algorithms.AES(key), modes.CBC(iv))\<close>: \<open>AES\<close> rejects a key that is not 128,
  192 or 256 bits long, then \<open>Cipher\<close> rejects an IV that is not one block long.
\<close>

definition new_cipher :: "bytes \<Rightarrow> bytes \<Rightarrow> error + bytes \<times> bytes" where
  "new_cipher key iv =
     (if length key \<noteq> 16 \<and> length key \<noteq> 24 \<and> length key \<noteq> 32 then Inl (InvalidKeySize (8 * length key))
      else if length iv \<noteq> 16 then Inl (InvalidIVSize (length iv))
      else Inr (key, iv))"

text \<open>CBC chaining; \<open>finalize\<close> rejects data that is not a whole number of blocks.\<close>

fun cbc_encrypt_blocks :: "(bytes \<Rightarrow> bytes \<Rightarrow> bytes) \<Rightarrow> bytes \<Rightarrow> bytes \<Rightarrow> bytes \<Rightarrow> bytes" where
  "cbc_encrypt_blocks E key prev data =
     (if data = [] then []
      else let c = E key (xor_bytes (take 16 data) prev)
           in c @ cbc_encrypt_blocks E key c (drop 16 data))"

fun cbc_decrypt_blocks :: "(bytes \<Rightarrow> bytes \<Rightarrow> bytes) \<Rightarrow> bytes \<Rightarrow> bytes \<Rightarrow> bytes \<Rightarrow> bytes" where
  "cbc_decrypt_blocks D key prev data =
     (if data = [] then []
      else xor_bytes (D key (take 16 data)) prev
           @ cbc_decrypt_blocks D key (take 16 data) (drop 16 data))"

declare cbc_encrypt_blocks.simps [simp del] cbc_decrypt_blocks.simps [simp del]

definition cbc_encrypt :: "(bytes \<Rightarrow> bytes \<Rightarrow> bytes) \<Rightarrow> bytes \<times> bytes \<Rightarrow> bytes \<Rightarrow> error + bytes" where
  "cbc_encrypt E cipher data =
     (if length data mod 16 \<noteq> 0 then Inl BlockLengthError
      else Inr (cbc_encrypt_blocks E (fst cipher) (snd cipher) data))"

definition cbc_decrypt :: "(bytes \<Rightarrow> bytes \<Rightarrow> bytes) \<Rightarrow> bytes \<times> bytes \<Rightarrow> bytes \<Rightarrow> error + bytes" where
  "cbc_decrypt D cipher data =
     (if length data mod 16 \<noteq> 0 then Inl BlockLengthError
      else Inr (cbc_decrypt_blocks D (fst cipher) (snd cipher) data))"

section \<open>The cipher engine (encryption.py)\<close>

text \<open>The default of the parameter \<open>length\<close> of \<open>derive_key\<close>; no caller passes another.\<close>

definition default_length :: nat where
  "default_length = 32"

definition derive_key :: "backend \<Rightarrow> string \<Rightarrow> bytes \<Rightarrow> nat \<Rightarrow> error + bytes" where
  "derive_key L password' salt len =
     pbkdf2_hmac (sha256 L) len salt 100000 (str_encode password')"

text \<open>
  \<open>os.urandom\<close> reads the next bytes of the system's entropy, a stream \<open>rng\<close>;
  \<open>encrypt\<close> returns the text and the rest of the stream.
\<close>

definition encrypt :: "backend \<Rightarrow> string \<Rightarrow> string \<Rightarrow> byte stream \<Rightarrow> error + string \<times> byte stream" where
  "encrypt L message password' rng =
     (let salt = stake 16 rng; rng1 = sdrop 16 rng in
      and_then (derive_key L password' salt default_length) (\<lambda>key.
      let iv = stake 16 rng1; rng2 = sdrop 16 rng1;
          padded_message = pkcs7_pad (str_encode message) in
      and_then (new_cipher key iv) (\<lambda>cipher.
      and_then (cbc_encrypt (aes_encrypt_block L) cipher padded_message) (\<lambda>ciphertext.
      and_then (bytes_decode (b64encode L (salt @ iv @ ciphertext))) (\<lambda>text.
      Inr (text, rng2))))))"

text \<open>The three slices \<open>[:16]\<close>, \<open>[16:32]\<close> and \<open>[32:]\<close> of \<open>decrypt\<close>.\<close>

definition split_blob :: "bytes \<Rightarrow> bytes \<times> bytes \<times> bytes" where
  "split_blob encrypted_data =
     (take 16 encrypted_data, take 16 (drop 16 encrypted_data), drop 32 encrypted_data)"

definition decrypt :: "backend \<Rightarrow> string \<Rightarrow> string \<Rightarrow> error + string" where
  "decrypt L encrypted_message password' =
     and_then (case b64decode L encrypted_message of None \<Rightarrow> Inl Base64Error | Some d \<Rightarrow> Inr d)
       (\<lambda>encrypted_data.
      case split_blob encrypted_data of (salt, iv, ciphertext) \<Rightarrow>
      and_then (derive_key L password' salt default_length) (\<lambda>key.
      and_then (new_cipher key iv) (\<lambda>cipher.
      and_then (cbc_decrypt (aes_decrypt_block L) cipher ciphertext) (\<lambda>padded_message.
      and_then (pkcs7_unpad padded_message) (\<lambda>message.
      bytes_decode message)))))"

section \<open>The session store (SSHTunnel.py)\<close>

text \<open>
  \<open>SSHTunnel(**d)\<close>: \<open>d\<close> must be a mapping; a key that is no parameter of
  \<open>__init__\<close>, or a parameter without default that is missing, is a \<open>TypeError\<close>.
\<close>

definition init_params :: "string list" where
  "init_params = [''local_port'', ''host_ip'', ''host_port'', ''user'', ''password'',
                  ''name'', ''local_ip'', ''server_ip'', ''server_port'']"

definition kwarg :: "(string \<times> pyval) list \<Rightarrow> string \<Rightarrow> pyval \<Rightarrow> pyval" where
  "kwarg kvs k dflt = (case map_of kvs k of None \<Rightarrow> dflt | Some v \<Rightarrow> v)"

definition SSHTunnel_kwargs :: "pyval \<Rightarrow> error + 'h SSHTunnel" where
  "SSHTunnel_kwargs d =
     (case d of
        PDict kvs \<Rightarrow>
          if \<not> list_all (\<lambda>k. k \<in> set init_params) (map fst kvs) then Inl TypeError
          else
            (case (map_of kvs ''local_port'', map_of kvs ''host_ip'', map_of kvs ''host_port'',
                   map_of kvs ''user'', map_of kvs ''password'') of
               (Some lp, Some hi, Some hp, Some u, Some pw) \<Rightarrow>
                 Inr (SSHTunnel_init lp hi hp u pw
                        (kwarg kvs ''name'' default_name)
                        (kwarg kvs ''local_ip'' default_local_ip)
                        (kwarg kvs ''server_ip'' default_server_ip)
                        (kwarg kvs ''server_port'' default_server_port))
             | _ \<Rightarrow> Inl TypeError)
      | _ \<Rightarrow> Inl TypeError)"

fun construct_each :: "pyval list \<Rightarrow> error + 'h SSHTunnel list" where
  "construct_each [] = Inr []"
| "construct_each (d # ds) =
     and_then (SSHTunnel_kwargs d) (\<lambda>t.
     and_then (construct_each ds) (\<lambda>ts. Inr (t # ts)))"

text \<open>
  \<open>[SSHTunnel(**d) for d in data]\<close>: a list is iterated; a dict or a string is iterated
  too, but its elements are strings, which are no mappings; anything else cannot be
  iterated.
\<close>

fun construct_all :: "pyval \<Rightarrow> error + 'h SSHTunnel list" where
  "construct_all (PList ds) = construct_each ds"
| "construct_all (PDict kvs) = (if kvs = [] then Inr [] else Inl TypeError)"
| "construct_all (PStr s) = (if s = [] then Inr [] else Inl TypeError)"
| "construct_all _ = Inl TypeError"

text \<open>The files are a map from paths to their text.\<close>

definition save_tunnels ::
  "backend \<Rightarrow> (string \<rightharpoonup> string) \<Rightarrow> 'h SSHTunnel list \<Rightarrow> string \<Rightarrow> string \<Rightarrow> byte stream
     \<Rightarrow> error + (string \<rightharpoonup> string) \<times> byte stream"
where
  "save_tunnels L fs tunnels path password' rng =
     (let data = map (\<lambda>t. PDict (to_dict t)) tunnels;
          json_str = json_dumps L (PList data) in
      and_then (encrypt L json_str password' rng) (\<lambda>(json_enc, rng').
      Inr (fs(path \<mapsto> json_enc), rng')))"

definition load_tunnels ::
  "backend \<Rightarrow> (string \<rightharpoonup> string) \<Rightarrow> string \<Rightarrow> string \<Rightarrow> error + 'h SSHTunnel list"
where
  "load_tunnels L fs path password' =
     and_then (case fs path of None \<Rightarrow> Inl FileNotFoundError | Some text \<Rightarrow> Inr text) (\<lambda>data.
     and_then (decrypt L data password') (\<lambda>data.
     and_then (case json_loads L data of None \<Rightarrow> Inl JSONDecodeError | Some v \<Rightarrow> Inr v) (\<lambda>data.
     construct_all data)))"

section \<open>The invariants of the data model, sample tunnels and forwarder doubles\<close>

text \<open>
  The port range of the data model, as a predicate on the stored values. The forwarder
  doubles stand for the \<open>sshtunnel\<close> library in the examples: one that connects, one
  whose \<open>start\<close> raises, one whose \<open>stop\<close> raises.
\<close>

fun port_ok :: "pyval \<Rightarrow> bool" where
  "port_ok (PInt i) = (1 \<le> i \<and> i \<le> 65535)"
| "port_ok _ = False"

definition ports_in_range :: "'h SSHTunnel \<Rightarrow> bool" where
  "ports_in_range t = (port_ok (local_port t) \<and> port_ok (host_port t) \<and> port_ok (server_port t))"

definition db_tunnel :: "bool SSHTunnel" where
  "db_tunnel = SSHTunnel_init (PInt 5432) (PStr ''10.0.0.5'') (PInt 5432) (PStr ''alice'')
     (PStr ''secret'') (PStr ''db'') (PStr ''127.0.0.1'') (PStr ''bastion.example.com'') (PInt 22)"

definition fake_forwarder :: "bool forwarder" where
  "fake_forwarder =
     \<lparr> fwd_new = (\<lambda>ssh remote local u p. Inr False),
       fwd_start = (\<lambda>h. (None, True)),
       fwd_stop = (\<lambda>force h. (None, False)),
       fwd_is_active = (\<lambda>h. h) \<rparr>"

definition refusing_forwarder :: "bool forwarder" where
  "refusing_forwarder =
     fake_forwarder \<lparr> fwd_start := (\<lambda>h. (Some (ForwarderError ''Could not establish session to SSH gateway''), False)) \<rparr>"

definition stuck_forwarder :: "bool forwarder" where
  "stuck_forwarder =
     fake_forwarder \<lparr> fwd_stop := (\<lambda>force h. (Some (ForwarderError ''teardown failed''), h)) \<rparr>"

definition port_zero_tunnel :: "bool SSHTunnel" where
  "port_zero_tunnel = SSHTunnel_init (PInt 0) (PStr ''10.0.0.5'') (PInt 5432) (PStr ''alice'')
     (PStr ''secret'') (PStr ''db'') (PStr ''127.0.0.1'') (PStr ''bastion.example.com'') (PInt 22)"

definition port_65536_tunnel :: "bool SSHTunnel" where
  "port_65536_tunnel = SSHTunnel_init (PInt 65536) (PStr ''10.0.0.5'') (PInt 5432) (PStr ''alice'')
     (PStr ''secret'') (PStr ''db'') (PStr ''127.0.0.1'') (PStr ''bastion.example.com'') (PInt 22)"

definition defaulted_tunnel :: "bool SSHTunnel" where
  "defaulted_tunnel = SSHTunnel_init (PInt 5432) (PStr ''10.0.0.5'') (PInt 5432) (PStr ''alice'')
     (PStr ''secret'') (PStr ''db'') (PStr ''127.0.0.1'') default_server_ip (PInt 22)"

definition blank_host_default_tunnel :: "bool SSHTunnel" where
  "blank_host_default_tunnel = SSHTunnel_init (PInt 5432) (PStr '''') (PInt 5432) (PStr ''alice'')
     (PStr ''secret'') default_name default_local_ip default_server_ip default_server_port"

definition blank_server_tunnel :: "bool SSHTunnel" where
  "blank_server_tunnel = SSHTunnel_init (PInt 5432) (PStr ''10.0.0.5'') (PInt 5432) (PStr ''alice'')
     (PStr ''secret'') (PStr ''db'') (PStr ''127.0.0.1'') (PStr '''') (PInt 22)"

definition blank_host_tunnel :: "bool SSHTunnel" where
  "blank_host_tunnel = SSHTunnel_init (PInt 5432) (PStr '''') (PInt 5432) (PStr ''alice'')
     (PStr ''secret'') (PStr ''db'') (PStr ''127.0.0.1'') (PStr '''') (PInt 22)"

definition active_db_tunnel :: "bool SSHTunnel" where
  "active_db_tunnel = db_tunnel \<lparr> tunnel_fwd := Some True \<rparr>"

definition fwd_args :: "'h SSHTunnel \<Rightarrow> 'h forwarder \<Rightarrow> error + 'h" where
  "fwd_args t F = fwd_new F (server_ip t, server_port t) (host_ip t, host_port t)
                    (local_ip t, local_port t) (user t) (password t)"

section \<open>What is assumed of the libraries, and the invariant of a stored tunnel\<close>

text \<open>
  SHA-256 returns 32 bytes. AES with a 256-bit key maps a block to a block, and decrypting
  a block undoes encrypting it. The base64 alphabet is ASCII, and decoding undoes encoding.
  For a value \<open>v\<close>, \<open>json.loads\<close> undoes \<open>json.dumps\<close>, whose output is ASCII
  (\<open>ensure_ascii\<close> is on by default).
\<close>

definition sha256_ok :: "backend \<Rightarrow> bool" where
  "sha256_ok L = (\<forall>m. length (sha256 L m) = 32)"

definition aes_ok :: "backend \<Rightarrow> bool" where
  "aes_ok L = (\<forall>k b. length k = 32 \<longrightarrow> length b = 16 \<longrightarrow>
      length (aes_encrypt_block L k b) = 16 \<and> aes_decrypt_block L k (aes_encrypt_block L k b) = b)"

definition base64_ok :: "backend \<Rightarrow> bool" where
  "base64_ok L = (\<forall>b. list_all (\<lambda>c. c < 0x80) (b64encode L b) \<and>
      b64decode L (map (\<lambda>c. char_of (unat c)) (b64encode L b)) = Some b)"

definition json_ok :: "backend \<Rightarrow> pyval \<Rightarrow> bool" where
  "json_ok L v = (json_loads L (json_dumps L v) = Some v \<and>
      list_all (\<lambda>c. (of_char c :: byte) < 0x80) (json_dumps L v))"

text \<open>
  A valid TunnelSpec: the text fields are strings, the ports are integers of
  \<open>[1, 65535]\<close>, and \<open>server_ip\<close> is not empty.
\<close>

fun is_str :: "pyval \<Rightarrow> bool" where
  "is_str (PStr s) = True"
| "is_str _ = False"

definition valid_spec :: "'h SSHTunnel \<Rightarrow> bool" where
  "valid_spec t =
     (is_str (name t) \<and> is_str (local_ip t) \<and> is_str (host_ip t) \<and> is_str (user t) \<and>
      is_str (password t) \<and> is_str (server_ip t) \<and> server_ip t \<noteq> PStr [] \<and>
      ports_in_range t)"

text \<open>What \<open>load_tunnels\<close> returns for a saved tunnel: the same fields, no handle.\<close>

definition detached :: "'h SSHTunnel \<Rightarrow> 'h SSHTunnel" where
  "detached t = t\<lparr>tunnel_fwd := None\<rparr>"

section \<open>Construction of a tunnel\<close>

text \<open>
  Claim C4, as the code has it. \<open>__init__\<close> validates nothing: it stores the three ports
  exactly as given, whatever their value, so a constructed tunnel has its ports in
  \<open>[1, 65535]\<close> exactly when the arguments were. (Only the spin boxes of the form
  restrict the range.)
\<close>

theorem init_ports_unchecked:
  assumes "t = SSHTunnel_init lp hi hp u pw n li si sp"
  shows "local_port t = lp \<and> host_port t = hp \<and> server_port t = sp \<and>
         ports_in_range t = (port_ok lp \<and> port_ok hp \<and> port_ok sp)"
  using assms by (simp add: SSHTunnel_init_def ports_in_range_def)

theorem init_ports_unchecked_witness:
  "ports_in_range db_tunnel \<and> local_port db_tunnel = PInt 5432"
  using init_ports_unchecked [OF db_tunnel_def] by simp

text \<open>Constructing with \<open>local_port = 0\<close> or \<open>65536\<close> succeeds and stores the value.\<close>

theorem init_port_zero_counterexample:
  "local_port port_zero_tunnel = PInt 0 \<and> \<not> ports_in_range port_zero_tunnel \<and>
   local_port port_65536_tunnel = PInt 65536 \<and> \<not> ports_in_range port_65536_tunnel"
  by (simp add: port_zero_tunnel_def port_65536_tunnel_def SSHTunnel_init_def ports_in_range_def)

lemma start_server_ip: "server_ip (snd (start F t)) = server_ip t"
  by (auto simp add: start_def split: option.splits sum.splits prod.splits)

lemma stop_server_ip: "server_ip (snd (stop F t)) = server_ip t"
  by (auto simp add: stop_def split: option.splits sum.splits prod.splits)

text \<open>
  Claim C8, as the code has it. Without an explicit \<open>server_ip\<close> the constructed tunnel
  has \<open>server_ip = host_ip\<close>; \<open>start\<close> and \<open>stop\<close> never touch the attribute; and the
  stored \<open>server_ip\<close> is non-empty provided \<open>host_ip\<close> is.
\<close>

theorem server_ip_default:
  assumes "t = SSHTunnel_init lp hi hp u pw n li default_server_ip sp"
    and "t' = SSHTunnel_init lp hi hp u pw n li si sp"
  shows "server_ip t = hi \<and>
         (\<not> py_falsy hi \<longrightarrow> \<not> py_falsy (server_ip t')) \<and>
         server_ip (snd (start F t)) = server_ip t \<and>
         server_ip (snd (stop F t)) = server_ip t"
  using assms
  by (simp add: SSHTunnel_init_def default_server_ip_def start_server_ip stop_server_ip)

theorem server_ip_default_witness:
  "server_ip defaulted_tunnel = PStr ''10.0.0.5'' \<and>
   \<not> py_falsy (PStr ''10.0.0.5'') \<and>
   \<not> py_falsy (server_ip db_tunnel) \<and>
   server_ip (snd (start fake_forwarder defaulted_tunnel)) = PStr ''10.0.0.5'' \<and>
   server_ip (snd (stop fake_forwarder defaulted_tunnel)) = PStr ''10.0.0.5''"
  using server_ip_default [OF defaulted_tunnel_def db_tunnel_def, of fake_forwarder] by simp

text \<open>With an empty \<open>host_ip\<close> the default leaves \<open>server_ip\<close> empty.\<close>

theorem server_ip_default_counterexample:
  "server_ip blank_host_default_tunnel = PStr ''''"
  by (simp add: blank_host_default_tunnel_def SSHTunnel_init_def default_server_ip_def)

text \<open>
  Claim C10, as the code has it. The default also replaces an explicit empty string, and
  every other falsy value; an empty \<open>server_ip\<close> is stored only when \<open>host_ip\<close> is
  itself the empty string.
\<close>

theorem server_ip_falsy:
  assumes "t = SSHTunnel_init lp hi hp u pw n li (PStr '''') sp"
    and "t' = SSHTunnel_init lp hi hp u pw n li si sp"
  shows "server_ip t = hi \<and>
         (py_falsy si \<longrightarrow> server_ip t' = hi) \<and>
         (server_ip t' = PStr '''' \<longrightarrow> hi = PStr '''')"
  using assms by (auto simp add: SSHTunnel_init_def split: if_splits)

theorem server_ip_falsy_witness:
  "server_ip blank_server_tunnel = PStr ''10.0.0.5'' \<and> py_falsy (PStr '''') \<and>
   server_ip blank_host_tunnel = PStr ''''"
  using server_ip_falsy [OF blank_server_tunnel_def blank_server_tunnel_def]
    server_ip_falsy [OF blank_host_tunnel_def blank_host_tunnel_def]
  by simp

text \<open>An explicit empty \<open>server_ip\<close> with an empty \<open>host_ip\<close> is stored as it is.\<close>

theorem server_ip_falsy_counterexample:
  "server_ip blank_host_tunnel = PStr ''''"
  by (simp add: blank_host_tunnel_def SSHTunnel_init_def)

section \<open>The lifecycle of a tunnel\<close>

text \<open>
  Claim C5, as the code has it. When the forwarder's \<open>stop\<close> does not raise (or the
  tunnel is not active), \<open>stop\<close> returns normally, the handle is discarded,
  \<open>is_active\<close> is false and a second \<open>stop\<close> changes nothing and does not raise.
  When the forwarder's \<open>stop\<close> raises, the exception reaches the caller and the
  handle stays.
\<close>

theorem stop_postcondition:
  "((\<forall>h. tunnel_fwd t = Some h \<longrightarrow> fwd_is_active F h \<longrightarrow> fst (fwd_stop F True h) = None) \<longrightarrow>
      stop F t = (None, t\<lparr>tunnel_fwd := None\<rparr>) \<and>
      \<not> is_active F (snd (stop F t)) \<and>
      stop F (snd (stop F t)) = (None, snd (stop F t))) \<and>
   (\<forall>h e h'. tunnel_fwd t = Some h \<longrightarrow> fwd_is_active F h \<longrightarrow> fwd_stop F True h = (Some e, h') \<longrightarrow>
      stop F t = (Some e, t\<lparr>tunnel_fwd := Some h'\<rparr>))"
  by (auto simp add: stop_def is_active_def split: option.splits prod.splits)

theorem stop_postcondition_witness:
  "fst (fwd_stop fake_forwarder True True) = None \<and>
   stop fake_forwarder active_db_tunnel = (None, active_db_tunnel\<lparr>tunnel_fwd := None\<rparr>) \<and>
   \<not> is_active fake_forwarder (snd (stop fake_forwarder active_db_tunnel)) \<and>
   stop fake_forwarder (snd (stop fake_forwarder active_db_tunnel)) =
     (None, snd (stop fake_forwarder active_db_tunnel)) \<and>
   fwd_stop stuck_forwarder True True = (Some (ForwarderError ''teardown failed''), True) \<and>
   stop stuck_forwarder active_db_tunnel =
     (Some (ForwarderError ''teardown failed''), active_db_tunnel\<lparr>tunnel_fwd := Some True\<rparr>)"
proof -
  have quiet: "\<forall>h. tunnel_fwd active_db_tunnel = Some h \<longrightarrow> fwd_is_active fake_forwarder h \<longrightarrow>
                 fst (fwd_stop fake_forwarder True h) = None"
    by (simp add: fake_forwarder_def)
  have handle: "tunnel_fwd active_db_tunnel = Some True"
    by (simp add: active_db_tunnel_def)
  have live: "fwd_is_active stuck_forwarder True"
    by (simp add: stuck_forwarder_def fake_forwarder_def)
  have raises: "fwd_stop stuck_forwarder True True = (Some (ForwarderError ''teardown failed''), True)"
    by (simp add: stuck_forwarder_def)
  have calm: "fst (fwd_stop fake_forwarder True True) = None"
    by (simp add: fake_forwarder_def)
  from stop_postcondition [of active_db_tunnel fake_forwarder] quiet
  have ok: "stop fake_forwarder active_db_tunnel = (None, active_db_tunnel\<lparr>tunnel_fwd := None\<rparr>) \<and>
      \<not> is_active fake_forwarder (snd (stop fake_forwarder active_db_tunnel)) \<and>
      stop fake_forwarder (snd (stop fake_forwarder active_db_tunnel)) =
        (None, snd (stop fake_forwarder active_db_tunnel))"
    by blast
  from stop_postcondition [of active_db_tunnel stuck_forwarder] handle live raises
  have bad: "stop stuck_forwarder active_db_tunnel =
      (Some (ForwarderError ''teardown failed''), active_db_tunnel\<lparr>tunnel_fwd := Some True\<rparr>)"
    by blast
  from calm ok raises bad show ?thesis by blast
qed

text \<open>A teardown that raises: \<open>stop\<close> raises too, and the tunnel is still active.\<close>

theorem stop_raises_counterexample:
  "fst (stop stuck_forwarder active_db_tunnel) = Some (ForwarderError ''teardown failed'') \<and>
   is_active stuck_forwarder (snd (stop stuck_forwarder active_db_tunnel)) \<and>
   tunnel_fwd (snd (stop stuck_forwarder active_db_tunnel)) = Some True"
  by (simp add: stop_def is_active_def stuck_forwarder_def fake_forwarder_def active_db_tunnel_def)

text \<open>
  Claim C6, as the code has it. On a tunnel without handle: if the forwarder cannot be
  constructed, its exception is raised unchanged and the tunnel is unchanged; otherwise
  the handle is stored, and whatever the forwarder's \<open>start\<close> does (return or raise,
  the exception unchanged, without the tunnel's name) the tunnel keeps the handle and
  \<open>is_active\<close> reports what the handle reports. A handle that exists and is inactive is
  started again; an active tunnel is left alone.
\<close>

theorem start_outcomes:
  "(\<forall>e. tunnel_fwd t = None \<longrightarrow> fwd_args t F = Inl e \<longrightarrow> start F t = (Some e, t)) \<and>
   (\<forall>h r h'. tunnel_fwd t = None \<longrightarrow> fwd_args t F = Inr h \<longrightarrow> \<not> fwd_is_active F h \<longrightarrow>
      fwd_start F h = (r, h') \<longrightarrow>
      start F t = (r, t\<lparr>tunnel_fwd := Some h'\<rparr>) \<and>
      is_active F (snd (start F t)) = fwd_is_active F h') \<and>
   (\<forall>h r h'. tunnel_fwd t = Some h \<longrightarrow> \<not> fwd_is_active F h \<longrightarrow> fwd_start F h = (r, h') \<longrightarrow>
      start F t = (r, t\<lparr>tunnel_fwd := Some h'\<rparr>) \<and>
      is_active F (snd (start F t)) = fwd_is_active F h') \<and>
   (is_active F t \<longrightarrow> start F t = (None, t))"
  by (auto simp add: start_def is_active_def fwd_args_def split: option.splits prod.splits sum.splits)

theorem start_outcomes_witness:
  "fwd_args db_tunnel fake_forwarder = Inr False \<and>
   fwd_start fake_forwarder False = (None, True) \<and>
   start fake_forwarder db_tunnel = (None, db_tunnel\<lparr>tunnel_fwd := Some True\<rparr>) \<and>
   is_active fake_forwarder (snd (start fake_forwarder db_tunnel)) \<and>
   fwd_start refusing_forwarder False =
     (Some (ForwarderError ''Could not establish session to SSH gateway''), False) \<and>
   start refusing_forwarder db_tunnel =
     (Some (ForwarderError ''Could not establish session to SSH gateway''),
      db_tunnel\<lparr>tunnel_fwd := Some False\<rparr>) \<and>
   is_active fake_forwarder active_db_tunnel \<and>
   start fake_forwarder active_db_tunnel = (None, active_db_tunnel)"
proof -
  have fresh: "tunnel_fwd db_tunnel = None"
    by (simp add: db_tunnel_def SSHTunnel_init_def)
  have made: "fwd_args db_tunnel fake_forwarder = Inr False"
    "fwd_args db_tunnel refusing_forwarder = Inr False"
    by (simp_all add: fwd_args_def fake_forwarder_def refusing_forwarder_def)
  have idle: "\<not> fwd_is_active fake_forwarder False" "\<not> fwd_is_active refusing_forwarder False"
    by (simp_all add: fake_forwarder_def refusing_forwarder_def)
  have up: "fwd_start fake_forwarder False = (None, True)"
    by (simp add: fake_forwarder_def)
  have live: "fwd_is_active fake_forwarder True"
    by (simp add: fake_forwarder_def)
  have refused: "fwd_start refusing_forwarder False =
      (Some (ForwarderError ''Could not establish session to SSH gateway''), False)"
    by (simp add: refusing_forwarder_def)
  have running: "is_active fake_forwarder active_db_tunnel"
    by (simp add: is_active_def active_db_tunnel_def fake_forwarder_def)
  from start_outcomes [of db_tunnel fake_forwarder] fresh made(1) idle(1) up
  have ok: "start fake_forwarder db_tunnel = (None, db_tunnel\<lparr>tunnel_fwd := Some True\<rparr>) \<and>
      is_active fake_forwarder (snd (start fake_forwarder db_tunnel)) = fwd_is_active fake_forwarder True"
    by blast
  from start_outcomes [of db_tunnel refusing_forwarder] fresh made(2) idle(2) refused
  have bad: "start refusing_forwarder db_tunnel =
      (Some (ForwarderError ''Could not establish session to SSH gateway''),
       db_tunnel\<lparr>tunnel_fwd := Some False\<rparr>)"
    by blast
  from start_outcomes [of active_db_tunnel fake_forwarder] running
  have again: "start fake_forwarder active_db_tunnel = (None, active_db_tunnel)"
    by blast
  from made(1) up ok live refused bad running again show ?thesis by blast
qed

text \<open>
  A connect attempt that fails: the caller gets the forwarder's own exception, and the
  tunnel is not what it was, it holds the handle of the failed attempt.
\<close>

theorem start_failure_counterexample:
  "fst (start refusing_forwarder db_tunnel) = Some (ForwarderError ''Could not establish session to SSH gateway'') \<and>
   snd (start refusing_forwarder db_tunnel) \<noteq> db_tunnel \<and>
   tunnel_fwd (snd (start refusing_forwarder db_tunnel)) = Some False"
  by (simp add: start_def is_active_def refusing_forwarder_def fake_forwarder_def db_tunnel_def SSHTunnel_init_def)

end
